theory Spec2Isabelle
  imports
    Main
    "HOL-Library.AList"
    "HOL-Library.Char_ord"
    "HOL-Library.List_Lexorder"
    "HOL-Library.Multiset"
begin

section \<open>The request-execution core of gotezos.go\<close>

text \<open>
  The development embeds the functions of \<^verbatim>\<open>gotezos.go\<close>: \<^verbatim>\<open>cleanseHost\<close>,
  \<^verbatim>\<open>handleRPCError\<close>, \<^verbatim>\<open>do\<close>, \<^verbatim>\<open>constructQueryParams\<close>, \<^verbatim>\<open>New\<close> and the two setters.
  Go strings and byte slices are \<open>string\<close> (a list of bytes). A Go function that can
  panic returns \<open>panic + 'a\<close>, with \<open>Inl\<close> the panic; a Go \<^verbatim>\<open>error\<close> result is an
  \<open>error option\<close>, with \<open>None\<close> for \<^verbatim>\<open>nil\<close>; a pointer or slice that may be \<^verbatim>\<open>nil\<close> is an
  option as well.

  What the file calls but does not define is either modelled after the Go standard
  library's documented behaviour (\<^verbatim>\<open>strings\<close>, \<^verbatim>\<open>fmt\<close>, \<^verbatim>\<open>errors.Wrap\<close>, \<^verbatim>\<open>url.Values\<close>), or
  taken as a parameter: the JSON decoder \<^verbatim>\<open>json.Unmarshal\<close>, the transport behind
  \<^verbatim>\<open>client.Do\<close>, the query parser behind \<^verbatim>\<open>URL.Query\<close>, and the methods \<^verbatim>\<open>Head\<close> and
  \<^verbatim>\<open>Constants\<close>, which live in other files of the repository. The timeouts of the default
  \<^verbatim>\<open>http.Client\<close> are real time and are left out.
\<close>

subsection \<open>Panics and errors\<close>

datatype panic =
    IndexOutOfRange int nat  \<comment> \<open>index out of range [i] with length n\<close>
  | NilDereference           \<comment> \<open>a field read through a nil pointer\<close>

datatype error =
    Opaque string            \<comment> \<open>an error made outside this file, with its message\<close>
  | Errorf string            \<comment> \<open>\<^verbatim>\<open>fmt.Errorf\<close>, with the formatted message\<close>
  | Wrap error string        \<comment> \<open>\<^verbatim>\<open>errors.Wrap(err, message)\<close>\<close>

text \<open>The method \<^verbatim>\<open>Error()\<close>: a wrapped error prints its message, a colon and its cause.\<close>

fun errorString :: "error \<Rightarrow> string" where
  "errorString (Opaque m) = m"
| "errorString (Errorf m) = m"
| "errorString (Wrap e m) = m @ '': '' @ errorString e"

text \<open>\<^verbatim>\<open>errors.Cause\<close>: the innermost error of a chain of wraps.\<close>

fun Cause :: "error \<Rightarrow> error" where
  "Cause (Wrap e m) = Cause e"
| "Cause e = e"

subsection \<open>Strings\<close>

text \<open>\<^verbatim>\<open>s[i]\<close> on a string or a slice: in range, or a panic.\<close>

definition index :: "'a list \<Rightarrow> int \<Rightarrow> panic + 'a" where
  "index s i =
     (if 0 \<le> i \<and> i < int (length s) then Inr (s ! nat i)
      else Inl (IndexOutOfRange i (length s)))"

text \<open>\<^verbatim>\<open>strings.HasPrefix\<close> and \<^verbatim>\<open>strings.Contains\<close>.\<close>

definition HasPrefix :: "string \<Rightarrow> string \<Rightarrow> bool" where
  "HasPrefix s pre = (length pre \<le> length s \<and> take (length pre) s = pre)"

fun Contains :: "string \<Rightarrow> string \<Rightarrow> bool" where
  "Contains [] substr = (substr = [])"
| "Contains (c # s) substr = (HasPrefix (c # s) substr \<or> Contains s substr)"

text \<open>The verb \<^verbatim>\<open>%d\<close> of \<^verbatim>\<open>fmt\<close>: an integer in decimal, with a minus sign when negative.\<close>

fun decimal :: "nat \<Rightarrow> string" where
  "decimal n =
     (if n < 10 then [char_of (48 + n)]
      else decimal (n div 10) @ [char_of (48 + n mod 10)])"

definition Itoa :: "int \<Rightarrow> string" where
  "Itoa i = (if i < 0 then CHR ''-'' # decimal (nat (- i)) else decimal (nat i))"

text \<open>\<^verbatim>\<open>strings.Join\<close>.\<close>

fun Join :: "string list \<Rightarrow> string \<Rightarrow> string" where
  "Join [] sep = []"
| "Join [x] sep = x"
| "Join (x # y # zs) sep = x @ sep @ Join (y # zs) sep"

subsection \<open>cleanseHost\<close>

text \<open>
  \<^verbatim>\<open>
  func cleanseHost(host string) string {
      if host[len(host)-1] == '/' {
          host = host[:len(host)-1]
      }
      if !strings.HasPrefix(host, "http://") && !strings.HasPrefix(host, "https://") {
          host = fmt.Sprintf("http://%s", host) //default to http
      }
      return host
  }
  \<close>
  The read \<^verbatim>\<open>host[len(host)-1]\<close> is the only place that can panic: on the empty string the
  index is \<open>-1\<close>.
\<close>

definition cleanseHost :: "string \<Rightarrow> panic + string" where
  "cleanseHost host =
     (case index host (int (length host) - 1) of
        Inl p \<Rightarrow> Inl p
      | Inr c \<Rightarrow>
          let host1 = (if c = CHR ''/'' then take (length host - 1) host else host);
              host2 = (if \<not> HasPrefix host1 ''http://'' \<and> \<not> HasPrefix host1 ''https://''
                       then ''http://'' @ host1 else host1)
          in Inr host2)"

subsection \<open>The data of the client\<close>

text \<open>
  \<^verbatim>\<open>RPCError\<close>, \<^verbatim>\<open>RPCErrors\<close> and \<^verbatim>\<open>rpcOptions\<close> are the structs of the file. A \<^verbatim>\<open>Block\<close> is
  declared elsewhere; only its field \<^verbatim>\<open>Hash\<close> is read here. \<^verbatim>\<open>Constants\<close> is declared
  elsewhere too and is never looked into: it is the type parameter \<open>'c\<close>.
\<close>

record RPCError =
  Kind :: string
  Error :: string

type_synonym RPCErrors = "RPCError list"

record rpcOptions =
  Key :: string
  Value :: string

record Block =
  Hash :: string

text \<open>
  Of \<^verbatim>\<open>http.Request\<close> the file touches the URL's \<^verbatim>\<open>RawQuery\<close>; of \<^verbatim>\<open>http.Response\<close> the
  \<^verbatim>\<open>StatusCode\<close> and the \<^verbatim>\<open>Body\<close>, which it drains with \<^verbatim>\<open>ioutil.ReadAll\<close>. The field
  \<open>Body\<close> holds what that call returns: the bytes read, and the read error if the
  stream fails.
\<close>

record URL =
  Target :: string
  RawQuery :: string

record Request =
  Method :: string
  URL :: URL
  Payload :: "string option"

record Response =
  StatusCode :: int
  Body :: "string \<times> error option"

text \<open>
  The interface \<^verbatim>\<open>client\<close> has the methods \<^verbatim>\<open>Do\<close> and \<^verbatim>\<open>CloseIdleConnections\<close>. \<open>Do\<close> is a
  field: it answers a request with a transport error or a response. The call of
  \<^verbatim>\<open>CloseIdleConnections\<close> is recorded in the outcome of \<open>do\<close>.
\<close>

record client =
  Do :: "Request \<Rightarrow> error + Response"

record 'c GoTezos =
  client :: client
  networkConstants :: "'c option"
  host :: string

text \<open>What a call of \<open>do\<close> returns (\<^verbatim>\<open>[]byte\<close>, \<^verbatim>\<open>error\<close>), and whether it released idle connections.\<close>

record outcome =
  returned_bytes :: "string option"
  returned_error :: "error option"
  idle_closed :: bool

subsection \<open>SetClient and SetConstants\<close>

definition SetClient :: "'c GoTezos \<Rightarrow> client \<Rightarrow> 'c GoTezos" where
  "SetClient t cl = t\<lparr>client := cl\<rparr>"

definition SetConstants :: "'c GoTezos \<Rightarrow> 'c \<Rightarrow> 'c GoTezos" where
  "SetConstants t constants = t\<lparr>networkConstants := Some constants\<rparr>"

subsection \<open>handleRPCError and do\<close>

text \<open>
  \<^verbatim>\<open>
  func handleRPCError(resp []byte) error {
      if strings.Contains(string(resp), "error") {
          rpcErrors := RPCErrors{}
          err := json.Unmarshal(resp, &rpcErrors)
          if err != nil {
              return errors.Wrap(err, "could not unmarshal rpc error")
          }
          return fmt.Errorf("rpc error (%s): %s", rpcErrors[0].Kind, rpcErrors[0].Error)
      }
      return nil
  }
  \<close>
  The decoder is the parameter \<open>unmarshal\<close>: \<open>Inl\<close> is the error of \<^verbatim>\<open>json.Unmarshal\<close>,
  \<open>Inr\<close> the slice it filled. \<^verbatim>\<open>rpcErrors[0]\<close> is an indexed read and panics on an empty
  slice.
\<close>

definition handleRPCError :: "(string \<Rightarrow> error + RPCErrors) \<Rightarrow> string \<Rightarrow> panic + error option" where
  "handleRPCError unmarshal resp =
     (if Contains resp ''error'' then
        (case unmarshal resp of
           Inl e \<Rightarrow> Inr (Some (Wrap e ''could not unmarshal rpc error''))
         | Inr rpcErrors \<Rightarrow>
             (case index rpcErrors 0 of
                Inl p \<Rightarrow> Inl p
              | Inr r \<Rightarrow> Inr (Some (Errorf (''rpc error ('' @ Kind r @ ''): '' @ Error r)))))
      else Inr None)"

text \<open>
  \<^verbatim>\<open>
  func (t *GoTezos) do(req *http.Request) ([]byte, error) {
      resp, err := t.client.Do(req)
      if err != nil {
          return nil, errors.Wrap(err, "failed to complete request")
      }
      byts, err := ioutil.ReadAll(resp.Body)
      if err != nil {
          return byts, errors.Wrap(err, "could not read response body")
      }
      if resp.StatusCode != http.StatusOK {
          return byts, fmt.Errorf("response returned code %d with body %s", resp.StatusCode, string(byts))
      }
      err = handleRPCError(byts)
      if err != nil {
          return byts, err
      }
      t.client.CloseIdleConnections()
      return byts, nil
  }
  \<close>
\<close>

definition StatusOK :: int where
  "StatusOK = 200"

definition do :: "(string \<Rightarrow> error + RPCErrors) \<Rightarrow> 'c GoTezos \<Rightarrow> Request \<Rightarrow> panic + outcome" where
  "do unmarshal t req =
     (case Do (client t) req of
        Inl e \<Rightarrow>
          Inr \<lparr>returned_bytes = None,
               returned_error = Some (Wrap e ''failed to complete request''),
               idle_closed = False\<rparr>
      | Inr resp \<Rightarrow>
          (case Body resp of
             (bs, Some e) \<Rightarrow>
               Inr \<lparr>returned_bytes = Some bs,
                    returned_error = Some (Wrap e ''could not read response body''),
                    idle_closed = False\<rparr>
           | (bs, None) \<Rightarrow>
               if StatusCode resp \<noteq> StatusOK then
                 Inr \<lparr>returned_bytes = Some bs,
                      returned_error = Some (Errorf (''response returned code ''
                         @ Itoa (StatusCode resp) @ '' with body '' @ bs)),
                      idle_closed = False\<rparr>
               else
                 (case handleRPCError unmarshal bs of
                    Inl p \<Rightarrow> Inl p
                  | Inr (Some e) \<Rightarrow>
                      Inr \<lparr>returned_bytes = Some bs, returned_error = Some e,
                           idle_closed = False\<rparr>
                  | Inr None \<Rightarrow>
                      Inr \<lparr>returned_bytes = Some bs, returned_error = None,
                           idle_closed = True\<rparr>)))"

subsection \<open>constructQueryParams\<close>

text \<open>
  \<^verbatim>\<open>url.Values\<close> is a \<^verbatim>\<open>map[string][]string\<close>: here an association list with one entry
  for each key. \<^verbatim>\<open>v[key]\<close> of an absent key is the empty slice, and \<^verbatim>\<open>Add\<close> is
  \<^verbatim>\<open>v[key] = append(v[key], value)\<close>.
\<close>

type_synonym Values = "(string \<times> string list) list"

definition values_at :: "Values \<Rightarrow> string \<Rightarrow> string list" where
  "values_at v k = (case map_of v k of None \<Rightarrow> [] | Some xs \<Rightarrow> xs)"

definition Add :: "Values \<Rightarrow> string \<Rightarrow> string \<Rightarrow> Values" where
  "Add v k x = AList.update k (values_at v k @ [x]) v"

text \<open>
  \<^verbatim>\<open>url.QueryEscape\<close>: letters, digits and \<^verbatim>\<open>- _ . ~\<close> stand for themselves, a space
  becomes \<^verbatim>\<open>+\<close>, every other byte becomes \<^verbatim>\<open>%XX\<close> in upper-case hexadecimal.
\<close>

definition shouldEscape :: "char \<Rightarrow> bool" where
  "shouldEscape c =
     (let n = (of_char c :: nat) in
      \<not> ((97 \<le> n \<and> n \<le> 122) \<or> (65 \<le> n \<and> n \<le> 90) \<or> (48 \<le> n \<and> n \<le> 57)
         \<or> c = CHR ''-'' \<or> c = CHR ''_'' \<or> c = CHR ''.'' \<or> c = CHR ''~''))"

definition upperhex :: "nat \<Rightarrow> char" where
  "upperhex n = ''0123456789ABCDEF'' ! n"

definition escapeByte :: "char \<Rightarrow> string" where
  "escapeByte c =
     (if c = CHR '' '' then ''+''
      else if shouldEscape c then
        [CHR ''%'', upperhex ((of_char c :: nat) div 16), upperhex ((of_char c :: nat) mod 16)]
      else [c])"

definition QueryEscape :: "string \<Rightarrow> string" where
  "QueryEscape s = concat (map escapeByte s)"

text \<open>
  \<^verbatim>\<open>Values.Encode\<close>: the keys in sorted order (\<^verbatim>\<open>sort.Strings\<close>, the order of the bytes),
  under each key its values in the order they were added, every pair written
  \<^verbatim>\<open>key=value\<close> with both sides escaped, the pairs joined by \<^verbatim>\<open>&\<close>.
\<close>

definition encodePair :: "string \<Rightarrow> string \<Rightarrow> string" where
  "encodePair k x = QueryEscape k @ ''='' @ QueryEscape x"

definition Encode :: "Values \<Rightarrow> string" where
  "Encode v =
     Join (concat (map (\<lambda>k. map (encodePair k) (values_at v k)) (sort (map fst v)))) ''&''"

text \<open>
  \<^verbatim>\<open>
  func constructQueryParams(req *http.Request, opts ...rpcOptions) {
      q := req.URL.Query()
      for _, opt := range opts {
          q.Add(opt.Key, opt.Value)
      }
      req.URL.RawQuery = q.Encode()
  }
  \<close>
  \<open>Query\<close> is the parameter for \<^verbatim>\<open>URL.Query\<close>, which parses the \<^verbatim>\<open>RawQuery\<close> the request
  already has. The loop is \<open>addAll\<close>; the request is returned updated.
\<close>

fun addAll :: "Values \<Rightarrow> rpcOptions list \<Rightarrow> Values" where
  "addAll q [] = q"
| "addAll q (opt # opts) = addAll (Add q (Key opt) (Value opt)) opts"

definition constructQueryParams :: "(URL \<Rightarrow> Values) \<Rightarrow> Request \<Rightarrow> rpcOptions list \<Rightarrow> Request" where
  "constructQueryParams Query req opts =
     (let q = addAll (Query (URL req)) opts
      in req\<lparr>URL := (URL req)\<lparr>RawQuery := Encode q\<rparr>\<rparr>)"

subsection \<open>New\<close>

text \<open>
  \<^verbatim>\<open>
  func New(host string) (*GoTezos, error) {
      gt := &GoTezos{
          client: &http.Client{ ... },
          host: cleanseHost(host),
      }
      block, err := gt.Head()
      if err != nil {
          return gt, errors.Wrap(err, "could not initialize library with network constants")
      }
      constants, err := gt.Constants(block.Hash)
      if err != nil {
          return gt, errors.Wrap(err, "could not initialize library with network constants")
      }
      gt.networkConstants = constants
      return gt, nil
  }
  \<close>
  \<open>httpDo\<close> is how the default \<^verbatim>\<open>http.Client\<close> answers requests. \<open>Head\<close> and \<open>Constants\<close>
  are the two methods of the repository that \<open>New\<close> calls; each returns a pointer and an
  error, as in Go. The first component of the result of \<open>New\<close> is the pointer \<^verbatim>\<open>gt\<close>.
\<close>

definition New ::
  "(Request \<Rightarrow> error + Response) \<Rightarrow>
   ('c GoTezos \<Rightarrow> Block option \<times> error option) \<Rightarrow>
   ('c GoTezos \<Rightarrow> string \<Rightarrow> 'c option \<times> error option) \<Rightarrow>
   string \<Rightarrow> panic + ('c GoTezos option \<times> error option)" where
  "New httpDo Head Constants hostname =
     (case cleanseHost hostname of
        Inl p \<Rightarrow> Inl p
      | Inr h \<Rightarrow>
          let gt = \<lparr>client = \<lparr>Do = httpDo\<rparr>, networkConstants = None, host = h\<rparr> in
          (case Head gt of
             (block, Some e) \<Rightarrow>
               Inr (Some gt,
                    Some (Wrap e ''could not initialize library with network constants''))
           | (block, None) \<Rightarrow>
               (case block of
                  None \<Rightarrow> Inl NilDereference
                | Some b \<Rightarrow>
                    (case Constants gt (Hash b) of
                       (constants, Some e) \<Rightarrow>
                         Inr (Some gt,
                              Some (Wrap e ''could not initialize library with network constants''))
                     | (constants, None) \<Rightarrow>
                         Inr (Some (gt\<lparr>networkConstants := constants\<rparr>), None)))))"

section \<open>Facts about the string functions\<close>

lemma HasPrefix_append: "HasPrefix (pre @ s) pre"
  by (simp add: HasPrefix_def)

lemma HasPrefix_iff: "HasPrefix s pre \<longleftrightarrow> (\<exists>rest. s = pre @ rest)"
proof
  assume "HasPrefix s pre"
  then have "s = pre @ drop (length pre) s"
    by (metis HasPrefix_def append_take_drop_id)
  then show "\<exists>rest. s = pre @ rest" ..
next
  assume "\<exists>rest. s = pre @ rest"
  then show "HasPrefix s pre" by (auto simp: HasPrefix_def)
qed

lemma HasPrefix_butlast:
  assumes "HasPrefix s pre" and "s \<noteq> pre"
  shows "HasPrefix (butlast s) pre"
proof -
  from assms(1) obtain rest where s: "s = pre @ rest"
    by (auto simp: HasPrefix_iff)
  with assms(2) have "rest \<noteq> []" by auto
  then have "butlast s = pre @ butlast rest"
    by (simp add: s butlast_append)
  then show ?thesis by (auto simp: HasPrefix_iff)
qed

lemma index_last: "s \<noteq> [] \<Longrightarrow> index s (int (length s) - 1) = Inr (last s)"
  by (cases s rule: rev_cases) (auto simp: index_def nat_diff_distrib)

lemma index_empty: "index [] i = Inl (IndexOutOfRange i 0)"
  by (simp add: index_def)

section \<open>The host normaliser\<close>

text \<open>
  On a non-empty host the function returns, and its two steps read: drop the last byte
  if it is a slash, then put \<^verbatim>\<open>http://\<close> in front unless a scheme is there already.
\<close>

lemma cleanseHost_nonempty:
  "h \<noteq> [] \<Longrightarrow> cleanseHost h =
     Inr (let host1 = (if last h = CHR ''/'' then butlast h else h)
          in if \<not> HasPrefix host1 ''http://'' \<and> \<not> HasPrefix host1 ''https://''
             then ''http://'' @ host1 else host1)"
  by (simp add: cleanseHost_def index_last butlast_conv_take Let_def)

lemma cleanseHost_empty: "cleanseHost [] = Inl (IndexOutOfRange (- 1) 0)"
  by (simp add: cleanseHost_def index_def)

lemma strip_keeps_prefix:
  assumes "HasPrefix k pre" and "k \<noteq> pre"
  shows "HasPrefix (if last k = CHR ''/'' then butlast k else k) pre"
  using assms by (simp add: HasPrefix_butlast)

lemma cleanseHost_unprefixed:
  assumes "h \<noteq> []" "last h \<noteq> CHR ''/''" "\<not> HasPrefix h ''http://''" "\<not> HasPrefix h ''https://''"
  shows "cleanseHost h = Inr (''http://'' @ h)"
  using assms by (simp add: cleanseHost_nonempty)

lemma cleanseHost_slash:
  "cleanseHost (g @ ''/'') =
     Inr (if \<not> HasPrefix g ''http://'' \<and> \<not> HasPrefix g ''https://'' then ''http://'' @ g else g)"
  by (simp add: cleanseHost_nonempty)

lemma cleanseHost_prefixed:
  assumes "HasPrefix k ''https://'' \<and> k \<noteq> ''https://'' \<or> HasPrefix k ''http://'' \<and> k \<noteq> ''http://''"
  shows "cleanseHost k = Inr (if last k = CHR ''/'' then butlast k else k)"
proof -
  define s where "s = (if last k = CHR ''/'' then butlast k else k)"
  from assms have ne: "k \<noteq> []" by (auto simp: HasPrefix_def)
  from assms have "HasPrefix s ''https://'' \<or> HasPrefix s ''http://''"
    unfolding s_def using strip_keeps_prefix by blast
  moreover have "cleanseHost k =
      Inr (if \<not> HasPrefix s ''http://'' \<and> \<not> HasPrefix s ''https://'' then ''http://'' @ s else s)"
    unfolding s_def by (simp add: cleanseHost_nonempty [OF ne] Let_def)
  ultimately have "cleanseHost k = Inr s"
    by auto
  then show ?thesis
    by (simp only: s_def)
qed

text \<open>
  Claim C6. Three cases of \<open>cleanseHost\<close> on a valid host. (1) A non-empty host \<open>h\<close> with
  no scheme and no trailing slash becomes \<^verbatim>\<open>http://\<close> followed by \<open>h\<close>. (2) Of a host
  \<open>g/\<close> exactly the last slash is removed, and the scheme test and the prefixing are done
  on \<open>g\<close>, whatever \<open>g\<close> is. (3) A host \<open>k\<close> that starts with \<^verbatim>\<open>https://\<close> or \<^verbatim>\<open>http://\<close> and
  names something after the scheme gets no prefix: the result is \<open>k\<close> without its
  trailing slash, and it starts with the scheme \<open>k\<close> started with. The bare schemes
  \<^verbatim>\<open>https://\<close> and \<^verbatim>\<open>http://\<close> name no host and are not covered by (3): their own last
  slash is the one removed.
\<close>

theorem cleanseHost_cases:
  "(h \<noteq> [] \<and> last h \<noteq> CHR ''/'' \<and> \<not> HasPrefix h ''http://'' \<and> \<not> HasPrefix h ''https://''
      \<longrightarrow> cleanseHost h = Inr (''http://'' @ h))
   \<and> cleanseHost (g @ ''/'') =
       Inr (if \<not> HasPrefix g ''http://'' \<and> \<not> HasPrefix g ''https://'' then ''http://'' @ g else g)
   \<and> (HasPrefix k ''https://'' \<and> k \<noteq> ''https://'' \<or> HasPrefix k ''http://'' \<and> k \<noteq> ''http://''
      \<longrightarrow> cleanseHost k = Inr (if last k = CHR ''/'' then butlast k else k)
          \<and> (HasPrefix k ''https://''
               \<longrightarrow> HasPrefix (if last k = CHR ''/'' then butlast k else k) ''https://'')
          \<and> (HasPrefix k ''http://''
               \<longrightarrow> HasPrefix (if last k = CHR ''/'' then butlast k else k) ''http://''))"
proof (intro conjI impI)
  assume "h \<noteq> [] \<and> last h \<noteq> CHR ''/'' \<and> \<not> HasPrefix h ''http://'' \<and> \<not> HasPrefix h ''https://''"
  then show "cleanseHost h = Inr (''http://'' @ h)"
    by (simp add: cleanseHost_unprefixed)
next
  show "cleanseHost (g @ ''/'') =
       Inr (if \<not> HasPrefix g ''http://'' \<and> \<not> HasPrefix g ''https://'' then ''http://'' @ g else g)"
    by (rule cleanseHost_slash)
next
  assume "HasPrefix k ''https://'' \<and> k \<noteq> ''https://'' \<or> HasPrefix k ''http://'' \<and> k \<noteq> ''http://''"
  then show "cleanseHost k = Inr (if last k = CHR ''/'' then butlast k else k)"
    by (rule cleanseHost_prefixed)
next
  assume a: "HasPrefix k ''https://'' \<and> k \<noteq> ''https://'' \<or> HasPrefix k ''http://'' \<and> k \<noteq> ''http://''"
    and b: "HasPrefix k ''https://''"
  have "k \<noteq> ''https://''"
    using a by (auto simp: HasPrefix_def)
  with b show "HasPrefix (if last k = CHR ''/'' then butlast k else k) ''https://''"
    by (rule strip_keeps_prefix)
next
  assume a: "HasPrefix k ''https://'' \<and> k \<noteq> ''https://'' \<or> HasPrefix k ''http://'' \<and> k \<noteq> ''http://''"
    and b: "HasPrefix k ''http://''"
  have "k \<noteq> ''http://''"
    using a b by (auto simp: HasPrefix_def)
  with b show "HasPrefix (if last k = CHR ''/'' then butlast k else k) ''http://''"
    by (rule strip_keeps_prefix)
qed

theorem cleanseHost_cases_witness:
  "cleanseHost ''node.example:8732'' = Inr ''http://node.example:8732''
   \<and> cleanseHost (''node.example:8732'' @ ''/'') = Inr ''http://node.example:8732''
   \<and> cleanseHost ''https://node.example/'' = Inr ''https://node.example''
   \<and> HasPrefix ''https://node.example'' ''https://''"
  using cleanseHost_cases
    [of "''node.example:8732''" "''node.example:8732''" "''https://node.example/''"]
  by (simp add: HasPrefix_def)

text \<open>
  What \<open>New\<close> stores in the field \<open>host\<close> is the normalised host: every path of \<open>New\<close>
  that returns hands back \<^verbatim>\<open>gt\<close>, and only \<^verbatim>\<open>networkConstants\<close> is assigned after \<^verbatim>\<open>gt\<close>
  is built.
\<close>

lemma New_host:
  assumes "cleanseHost h = Inr r" and "New httpDo Head Constants h = Inr (Some gt, e)"
  shows "host gt = r"
  using assms
  by (auto simp: New_def Let_def split: prod.splits option.splits)

lemma last_cleansed:
  assumes "h \<noteq> []" and "cleanseHost h = Inr r"
  shows "last r = CHR ''/'' \<longleftrightarrow> h = ''/'' \<or> (\<exists>g. h = g @ ''//'')"
proof -
  from assms(1) obtain g c where h: "h = g @ [c]"
    by (cases h rule: rev_cases) auto
  show ?thesis
  proof (cases "c = CHR ''/''")
    case False
    with assms(2) have "last r = c"
      by (auto simp: h cleanseHost_nonempty Let_def split: if_splits)
    with False show ?thesis by (auto simp: h)
  next
    case True
    with assms(2) have r:
      "r = (if \<not> HasPrefix g ''http://'' \<and> \<not> HasPrefix g ''https://'' then ''http://'' @ g else g)"
      by (simp add: h cleanseHost_nonempty Let_def)
    show ?thesis
    proof (cases "g = []")
      case True
      then show ?thesis using r \<open>c = CHR ''/''\<close> by (simp add: h HasPrefix_def)
    next
      case False
      then have "last r = last g" using r by auto
      moreover have "last g = CHR ''/'' \<longleftrightarrow> (\<exists>g'. g = g' @ ''/'')"
        using False by (metis append_butlast_last_id last_snoc)
      ultimately show ?thesis using False \<open>c = CHR ''/''\<close> by (auto simp: h)
    qed
  qed
qed

lemma scheme_cleansed:
  assumes "h \<noteq> []" and "cleanseHost h = Inr r"
  shows "HasPrefix r ''http://'' \<or> HasPrefix r ''https://''"
proof -
  define s where "s = (if last h = CHR ''/'' then butlast h else h)"
  from assms have "r = (if \<not> HasPrefix s ''http://'' \<and> \<not> HasPrefix s ''https://''
                        then ''http://'' @ s else s)"
    unfolding s_def by (simp add: cleanseHost_nonempty Let_def)
  then show ?thesis
    using HasPrefix_append [of "''http://''" s] by (simp split: if_splits)
qed

text \<open>
  Claim C7, as stated: for every non-empty host the normalised host has no trailing slash
  and starts with \<^verbatim>\<open>http://\<close> or \<^verbatim>\<open>https://\<close>. The first half fails: one slash is removed,
  not all of them, so \<^verbatim>\<open>node//\<close> is normalised to \<^verbatim>\<open>http://node/\<close>.
\<close>

theorem cleanseHost_trailing_slash_counterexample:
  "''node//'' \<noteq> [] \<and> cleanseHost ''node//'' = Inr ''http://node/''
   \<and> last ''http://node/'' = CHR ''/''"
  by (simp add: cleanseHost_def index_def HasPrefix_def)

text \<open>
  Claim C7, amended: for every non-empty host \<open>h\<close>, \<open>cleanseHost\<close> returns a string \<open>r\<close>
  that starts with \<^verbatim>\<open>http://\<close> or \<^verbatim>\<open>https://\<close>, and \<open>r\<close> is the host of the client whenever
  \<open>New\<close> returns one. \<open>r\<close> ends in a slash exactly when \<open>h\<close> is the single slash or ends in
  two slashes; for every other non-empty host it has no trailing slash.
\<close>

theorem cleanseHost_scheme_and_slash:
  "h \<noteq> [] \<longrightarrow>
     (\<exists>r. cleanseHost h = Inr r
        \<and> (HasPrefix r ''http://'' \<or> HasPrefix r ''https://'')
        \<and> (last r = CHR ''/'' \<longleftrightarrow> h = ''/'' \<or> (\<exists>g. h = g @ ''//''))
        \<and> (\<forall>gt e. New httpDo Head Constants h = Inr (Some gt, e) \<longrightarrow> host gt = r))"
proof
  assume ne: "h \<noteq> []"
  then obtain r where r: "cleanseHost h = Inr r"
    by (simp add: cleanseHost_nonempty)
  from ne r have "HasPrefix r ''http://'' \<or> HasPrefix r ''https://''"
    by (rule scheme_cleansed)
  moreover from ne r have "last r = CHR ''/'' \<longleftrightarrow> h = ''/'' \<or> (\<exists>g. h = g @ ''//'')"
    by (rule last_cleansed)
  moreover have "\<forall>gt e. New httpDo Head Constants h = Inr (Some gt, e) \<longrightarrow> host gt = r"
    using r by (blast intro: New_host)
  ultimately show "\<exists>r. cleanseHost h = Inr r
        \<and> (HasPrefix r ''http://'' \<or> HasPrefix r ''https://'')
        \<and> (last r = CHR ''/'' \<longleftrightarrow> h = ''/'' \<or> (\<exists>g. h = g @ ''//''))
        \<and> (\<forall>gt e. New httpDo Head Constants h = Inr (Some gt, e) \<longrightarrow> host gt = r)"
    using r by blast
qed

theorem cleanseHost_scheme_and_slash_witness:
  "cleanseHost ''node.example/'' = Inr ''http://node.example''
   \<and> HasPrefix ''http://node.example'' ''http://''
   \<and> last ''http://node.example'' \<noteq> CHR ''/''
   \<and> New (\<lambda>_. Inl (Opaque ''refused'')) (\<lambda>_. (None, Some (Opaque ''refused'')))
         (\<lambda>_ _. (None :: unit option, None)) ''node.example/''
       = Inr (Some \<lparr>client = \<lparr>Do = \<lambda>_. Inl (Opaque ''refused'')\<rparr>, networkConstants = None,
                    host = ''http://node.example''\<rparr>,
              Some (Wrap (Opaque ''refused'')
                      ''could not initialize library with network constants''))"
  using cleanseHost_scheme_and_slash
    [of "''node.example/''" "\<lambda>_. Inl (Opaque ''refused'')"
        "\<lambda>_. (None, Some (Opaque ''refused''))" "\<lambda>_ _. (None :: unit option, None)"]
  by (simp add: cleanseHost_def index_def HasPrefix_def New_def)

text \<open>
  Claim C10. On every non-empty host the read of the last byte, at index
  \<^verbatim>\<open>len(host)-1\<close>, is in range and \<open>cleanseHost\<close> returns a string. On the empty host the
  index is \<open>-1\<close>, the read panics, and so does \<open>New\<close>, whatever the node would have
  answered: it returns neither a client nor an error value.
\<close>

theorem cleanseHost_total_on_nonempty:
  "(h \<noteq> [] \<longrightarrow> index h (int (length h) - 1) = Inr (last h) \<and> (\<exists>r. cleanseHost h = Inr r))
   \<and> index ([] :: string) (int (length ([] :: string)) - 1) = Inl (IndexOutOfRange (- 1) 0)
   \<and> cleanseHost [] = Inl (IndexOutOfRange (- 1) 0)
   \<and> New httpDo Head Constants [] = Inl (IndexOutOfRange (- 1) 0)"
  by (simp add: index_last cleanseHost_nonempty cleanseHost_empty index_empty New_def)

theorem cleanseHost_total_on_nonempty_witness:
  "index ''localhost:8732'' (int (length ''localhost:8732'') - 1) = Inr (last ''localhost:8732'')
   \<and> (\<exists>r. cleanseHost ''localhost:8732'' = Inr r)"
  using cleanseHost_total_on_nonempty
    [of "''localhost:8732''" "\<lambda>_. Inl (Opaque [])" "\<lambda>_. (None, None)"
        "\<lambda>_ _. (None :: unit option, None)"]
  by simp

section \<open>Substrings and decimal numerals\<close>

text \<open>\<open>Contains\<close> is the substring relation.\<close>

lemma Contains_iff: "Contains s sub \<longleftrightarrow> (\<exists>a b. s = a @ sub @ b)"
proof (induction s)
  case Nil
  then show ?case by auto
next
  case (Cons c s)
  show ?case
  proof
    assume "Contains (c # s) sub"
    then consider "HasPrefix (c # s) sub" | "Contains s sub" by auto
    then show "\<exists>a b. c # s = a @ sub @ b"
    proof cases
      case 1
      then obtain rest where "c # s = sub @ rest" by (auto simp: HasPrefix_iff)
      then have "c # s = [] @ sub @ rest" by simp
      then show ?thesis by blast
    next
      case 2
      then obtain a b where "s = a @ sub @ b" using Cons.IH by auto
      then have "c # s = (c # a) @ sub @ b" by simp
      then show ?thesis by blast
    qed
  next
    assume "\<exists>a b. c # s = a @ sub @ b"
    then obtain a b where ab: "c # s = a @ sub @ b" by auto
    show "Contains (c # s) sub"
    proof (cases a)
      case Nil
      with ab have "HasPrefix (c # s) sub" by (auto simp: HasPrefix_iff)
      then show ?thesis by simp
    next
      case (Cons c' a')
      with ab have "s = a' @ sub @ b" by simp
      then have "Contains s sub" using Cons.IH by auto
      then show ?thesis by simp
    qed
  qed
qed

lemma Contains_middle: "Contains (a @ sub @ b) sub"
  by (auto simp: Contains_iff)

text \<open>
  The decimal form of an integer determines it: an error message that holds
  \<open>Itoa n\<close> refers to \<open>n\<close> and to no other number.
\<close>

declare decimal.simps [simp del]







section \<open>The error classifier and the executor\<close>

text \<open>
  \<open>handleRPCError\<close> by cases: without the substring it reports nothing and never calls
  the decoder; with it, the outcome is decided by what the decoder returns.
\<close>

lemma handleRPCError_absent:
  "\<not> Contains bs ''error'' \<Longrightarrow> handleRPCError unmarshal bs = Inr None"
  by (simp add: handleRPCError_def)

lemma handleRPCError_present:
  "Contains bs ''error'' \<Longrightarrow> handleRPCError unmarshal bs =
     (case unmarshal bs of
        Inl e \<Rightarrow> Inr (Some (Wrap e ''could not unmarshal rpc error''))
      | Inr [] \<Rightarrow> Inl (IndexOutOfRange 0 0)
      | Inr (r # rs) \<Rightarrow> Inr (Some (Errorf (''rpc error ('' @ Kind r @ ''): '' @ Error r))))"
  by (simp add: handleRPCError_def index_def split: sum.splits list.splits)

lemma handleRPCError_None_iff:
  "handleRPCError unmarshal bs = Inr None \<longleftrightarrow> \<not> Contains bs ''error''"
  by (auto simp: handleRPCError_absent handleRPCError_present split: sum.splits list.splits)

lemma do_read:
  assumes "Do (client t) req = Inr resp" and "Body resp = (bs, None)"
  shows "do unmarshal t req =
     (if StatusCode resp \<noteq> StatusOK then
        Inr \<lparr>returned_bytes = Some bs,
             returned_error = Some (Errorf (''response returned code ''
                @ Itoa (StatusCode resp) @ '' with body '' @ bs)),
             idle_closed = False\<rparr>
      else
        (case handleRPCError unmarshal bs of
           Inl p \<Rightarrow> Inl p
         | Inr (Some e) \<Rightarrow>
             Inr \<lparr>returned_bytes = Some bs, returned_error = Some e, idle_closed = False\<rparr>
         | Inr None \<Rightarrow>
             Inr \<lparr>returned_bytes = Some bs, returned_error = None, idle_closed = True\<rparr>))"
  using assms by (simp add: do_def)

lemma do_read_fails:
  assumes "Do (client t) req = Inr resp" and "Body resp = (bs, Some e)"
  shows "do unmarshal t req =
           Inr \<lparr>returned_bytes = Some bs,
                returned_error = Some (Wrap e ''could not read response body''),
                idle_closed = False\<rparr>"
  using assms by (simp add: do_def)





text \<open>
  Claim C1, as stated: for every response of status 200 whose body is a JSON array of
  \<^verbatim>\<open>{kind, error}\<close> records, \<open>do\<close> returns an error made of the first record. The decoder
  is asked only if the raw bytes of the body contain \<^verbatim>\<open>error\<close>. In JSON a letter of a key
  may be written as an escape: the body below is the array of one record with kind
  \<^verbatim>\<open>permanent\<close> and error \<^verbatim>\<open>boom\<close>, the key of the second field spelt with the escape
  u0065 (after a backslash, the byte \<open>0x5C\<close>) for its first letter. The decoder returns
  that record, but the bytes \<^verbatim>\<open>error\<close> do not occur in the body, and \<open>do\<close> returns it with
  no error.
\<close>

theorem do_rpc_error_counterexample:
  \<open>\<not> Contains (''[{"kind":"permanent","'' @ CHR 0x5C # ''u0065rror":"boom"}]'') ''error''
   \<and> do (\<lambda>b. if b = ''[{"kind":"permanent","'' @ CHR 0x5C # ''u0065rror":"boom"}]''
             then Inr [\<lparr>Kind = ''permanent'', Error = ''boom''\<rparr>]
             else Inl (Opaque ''invalid character''))
      \<lparr>client = \<lparr>Do = \<lambda>_. Inr \<lparr>StatusCode = 200,
          Body = (''[{"kind":"permanent","'' @ CHR 0x5C # ''u0065rror":"boom"}]'', None)\<rparr>\<rparr>,
       networkConstants = None :: unit option, host = ''http://node''\<rparr>
      \<lparr>Method = ''GET'',
       URL = \<lparr>Target = ''http://node/chains/main/blocks/head'', RawQuery = []\<rparr>,
       Payload = None\<rparr>
   = Inr \<lparr>returned_bytes = Some (''[{"kind":"permanent","'' @ CHR 0x5C # ''u0065rror":"boom"}]''),
          returned_error = None, idle_closed = True\<rparr>\<close>
  by (simp add: do_def handleRPCError_def StatusOK_def HasPrefix_def)

text \<open>
  Claim C1, amended: for every response of status 200 whose body is read without error
  and is decoded into a non-empty sequence of \<^verbatim>\<open>{kind, error}\<close> records \<open>r # rs\<close>: if the raw
  bytes of the body contain \<^verbatim>\<open>error\<close>, \<open>do\<close> returns the bytes together with the error
  \<^verbatim>\<open>rpc error (<kind>): <error>\<close> made of the first record \<open>r\<close>, whose message contains
  the kind and the error string of \<open>r\<close>, and the other records \<open>rs\<close> do not appear in the
  result; if the raw bytes do not contain \<^verbatim>\<open>error\<close>, \<open>do\<close> returns the bytes with no error.
  When the read of the body fails, \<open>do\<close> returns the bytes read so far with the read
  error wrapped as \<^verbatim>\<open>could not read response body\<close>.
\<close>

theorem do_rpc_error_first_entry:
  assumes "Do (client t) req = Inr resp" and "Body resp = (bs, rerr)"
    and "StatusCode resp = 200"
    and "unmarshal bs = Inr (r # rs)"
  shows "(rerr = None \<and> Contains bs ''error'' \<longrightarrow>
            do unmarshal t req =
              Inr \<lparr>returned_bytes = Some bs,
                   returned_error = Some (Errorf (''rpc error ('' @ Kind r @ ''): '' @ Error r)),
                   idle_closed = False\<rparr>)
         \<and> (rerr = None \<and> \<not> Contains bs ''error'' \<longrightarrow>
              do unmarshal t req =
                Inr \<lparr>returned_bytes = Some bs, returned_error = None, idle_closed = True\<rparr>)
         \<and> (\<forall>e. rerr = Some e \<longrightarrow>
              do unmarshal t req =
                Inr \<lparr>returned_bytes = Some bs,
                     returned_error = Some (Wrap e ''could not read response body''),
                     idle_closed = False\<rparr>)
         \<and> Contains (errorString (Errorf (''rpc error ('' @ Kind r @ ''): '' @ Error r))) (Kind r)
         \<and> Contains (errorString (Errorf (''rpc error ('' @ Kind r @ ''): '' @ Error r))) (Error r)"
proof (intro conjI allI impI)
  assume "rerr = None \<and> Contains bs ''error''"
  then show "do unmarshal t req =
      Inr \<lparr>returned_bytes = Some bs,
           returned_error = Some (Errorf (''rpc error ('' @ Kind r @ ''): '' @ Error r)),
           idle_closed = False\<rparr>"
    using assms by (simp add: do_read StatusOK_def handleRPCError_present)
next
  assume "rerr = None \<and> \<not> Contains bs ''error''"
  then show "do unmarshal t req =
      Inr \<lparr>returned_bytes = Some bs, returned_error = None, idle_closed = True\<rparr>"
    using assms by (simp add: do_read StatusOK_def handleRPCError_absent)
next
  fix e assume "rerr = Some e"
  then show "do unmarshal t req =
      Inr \<lparr>returned_bytes = Some bs,
           returned_error = Some (Wrap e ''could not read response body''),
           idle_closed = False\<rparr>"
    using assms by (simp add: do_read_fails)
next
  have "Contains (''rpc error ('' @ Kind r @ ''): '' @ Error r) (Kind r)"
    by (rule Contains_middle)
  then show "Contains (errorString (Errorf (''rpc error ('' @ Kind r @ ''): '' @ Error r))) (Kind r)"
    by simp
next
  have "Contains ((''rpc error ('' @ Kind r @ ''): '') @ Error r @ []) (Error r)"
    by (rule Contains_middle)
  then show "Contains (errorString (Errorf (''rpc error ('' @ Kind r @ ''): '' @ Error r))) (Error r)"
    by simp
qed

theorem do_rpc_error_first_entry_witness:
  \<open>do (\<lambda>b. if b = ''[{"kind":"permanent","error":"boom"},{"kind":"temporary","error":"later"}]''
            then Inr [\<lparr>Kind = ''permanent'', Error = ''boom''\<rparr>,
                      \<lparr>Kind = ''temporary'', Error = ''later''\<rparr>]
            else Inl (Opaque ''invalid character''))
      \<lparr>client = \<lparr>Do = \<lambda>_. Inr \<lparr>StatusCode = 200,
          Body = (''[{"kind":"permanent","error":"boom"},{"kind":"temporary","error":"later"}]'',
                  None)\<rparr>\<rparr>,
       networkConstants = None :: unit option, host = ''http://node''\<rparr>
      \<lparr>Method = ''GET'',
       URL = \<lparr>Target = ''http://node/chains/main/blocks/head'', RawQuery = []\<rparr>,
       Payload = None\<rparr>
   = Inr \<lparr>returned_bytes =
            Some ''[{"kind":"permanent","error":"boom"},{"kind":"temporary","error":"later"}]'',
          returned_error = Some (Errorf ''rpc error (permanent): boom''),
          idle_closed = False\<rparr>\<close>
  using do_rpc_error_first_entry
    [where t = \<open>\<lparr>client = \<lparr>Do = \<lambda>_. Inr \<lparr>StatusCode = 200,
          Body = (''[{"kind":"permanent","error":"boom"},{"kind":"temporary","error":"later"}]'',
                  None)\<rparr>\<rparr>,
         networkConstants = None :: unit option, host = ''http://node''\<rparr>\<close>
       and req = \<open>\<lparr>Method = ''GET'',
         URL = \<lparr>Target = ''http://node/chains/main/blocks/head'', RawQuery = []\<rparr>,
         Payload = None\<rparr>\<close>
       and resp = \<open>\<lparr>StatusCode = 200,
          Body = (''[{"kind":"permanent","error":"boom"},{"kind":"temporary","error":"later"}]'',
                  None)\<rparr>\<close>
       and bs = \<open>''[{"kind":"permanent","error":"boom"},{"kind":"temporary","error":"later"}]''\<close>
       and rerr = None
       and unmarshal =
         \<open>\<lambda>b. if b = ''[{"kind":"permanent","error":"boom"},{"kind":"temporary","error":"later"}]''
            then Inr [\<lparr>Kind = ''permanent'', Error = ''boom''\<rparr>,
                      \<lparr>Kind = ''temporary'', Error = ''later''\<rparr>]
            else Inl (Opaque ''invalid character'')\<close>
       and r = \<open>\<lparr>Kind = ''permanent'', Error = ''boom''\<rparr>\<close>
       and rs = \<open>[\<lparr>Kind = ''temporary'', Error = ''later''\<rparr>]\<close>]
  by (simp add: HasPrefix_def)

text \<open>
  Claim C2, as stated: for every response of status 200 whose body does not contain
  \<^verbatim>\<open>error\<close>, \<open>do\<close> returns the body with no error. A failed read of the body returns
  before the status and the body are looked at: for a response of status 200 whose stream
  breaks after the bytes \<^verbatim>\<open>{"hash":\<close>, \<open>do\<close> returns those bytes, which do not contain
  \<^verbatim>\<open>error\<close>, together with an error.
\<close>

theorem do_success_counterexample:
  \<open>\<not> Contains ''{"hash":'' ''error''
   \<and> do (\<lambda>_. Inl (Opaque ''unused''))
      \<lparr>client = \<lparr>Do = \<lambda>_. Inr \<lparr>StatusCode = 200,
          Body = (''{"hash":'', Some (Opaque ''unexpected EOF''))\<rparr>\<rparr>,
       networkConstants = None :: unit option, host = ''http://node''\<rparr>
      \<lparr>Method = ''GET'',
       URL = \<lparr>Target = ''http://node/chains/main/blocks/head'', RawQuery = []\<rparr>,
       Payload = None\<rparr>
   = Inr \<lparr>returned_bytes = Some ''{"hash":'',
          returned_error = Some (Wrap (Opaque ''unexpected EOF'') ''could not read response body''),
          idle_closed = False\<rparr>\<close>
  by (simp add: do_def HasPrefix_def)

text \<open>
  Claim C2, amended: for every response of status 200 whose body is read without error
  and does not contain \<^verbatim>\<open>error\<close>, \<open>do\<close> returns the body with no error (and releases idle
  connections); when the read of the body fails, \<open>do\<close> returns the bytes read so far
  with the read error wrapped as \<^verbatim>\<open>could not read response body\<close>. Conversely,
  \<open>handleRPCError\<close> reports an error only for a body that contains the substring, and
  \<open>do\<close> returns an \<^verbatim>\<open>rpc error\<close> only for a response of status 200 whose body was read
  without error and contains it.
\<close>

theorem do_success_without_error_substring:
  assumes "Do (client t) req = Inr resp" and "Body resp = (bs, rerr)"
  shows "(rerr = None \<and> StatusCode resp = 200 \<and> \<not> Contains bs ''error'' \<longrightarrow>
            do unmarshal t req =
              Inr \<lparr>returned_bytes = Some bs, returned_error = None, idle_closed = True\<rparr>)
       \<and> (\<forall>e. rerr = Some e \<longrightarrow>
            do unmarshal t req =
              Inr \<lparr>returned_bytes = Some bs,
                   returned_error = Some (Wrap e ''could not read response body''),
                   idle_closed = False\<rparr>)
       \<and> (\<forall>e. handleRPCError unmarshal bs = Inr (Some e) \<longrightarrow> Contains bs ''error'')
       \<and> (\<forall>out k m. do unmarshal t req = Inr out
              \<and> returned_error out = Some (Errorf (''rpc error ('' @ k @ ''): '' @ m))
            \<longrightarrow> rerr = None \<and> StatusCode resp = 200 \<and> Contains bs ''error'')"
proof (intro conjI allI impI)
  assume "rerr = None \<and> StatusCode resp = 200 \<and> \<not> Contains bs ''error''"
  then show "do unmarshal t req =
      Inr \<lparr>returned_bytes = Some bs, returned_error = None, idle_closed = True\<rparr>"
    using assms by (simp add: do_read StatusOK_def handleRPCError_absent)
next
  fix e assume "rerr = Some e"
  then show "do unmarshal t req =
      Inr \<lparr>returned_bytes = Some bs,
           returned_error = Some (Wrap e ''could not read response body''),
           idle_closed = False\<rparr>"
    using assms by (simp add: do_read_fails)
next
  fix e assume "handleRPCError unmarshal bs = Inr (Some e)"
  then show "Contains bs ''error''"
    by (auto simp: handleRPCError_def split: if_splits)
next
  fix out k m
  assume a: "do unmarshal t req = Inr out
              \<and> returned_error out = Some (Errorf (''rpc error ('' @ k @ ''): '' @ m))"
  show "rerr = None"
  proof (cases rerr)
    case None
    then show ?thesis .
  next
    case (Some e)
    with a show ?thesis
      using assms by (auto simp: do_read_fails)
  qed
next
  fix out k m
  assume a: "do unmarshal t req = Inr out
              \<and> returned_error out = Some (Errorf (''rpc error ('' @ k @ ''): '' @ m))"
  have none: "rerr = None"
  proof (cases rerr)
    case (Some e)
    with a show ?thesis
      using assms by (auto simp: do_read_fails)
  qed
  show "StatusCode resp = 200"
  proof (rule ccontr)
    assume "StatusCode resp \<noteq> 200"
    with a none show False
      using assms by (auto simp: do_read StatusOK_def)
  qed
next
  fix out k m
  assume a: "do unmarshal t req = Inr out
              \<and> returned_error out = Some (Errorf (''rpc error ('' @ k @ ''): '' @ m))"
  have none: "rerr = None"
  proof (cases rerr)
    case (Some e)
    with a show ?thesis
      using assms by (auto simp: do_read_fails)
  qed
  show "Contains bs ''error''"
  proof (rule ccontr)
    assume "\<not> Contains bs ''error''"
    with a none show False
      using assms by (auto simp: do_read StatusOK_def handleRPCError_absent split: if_splits)
  qed
qed

theorem do_success_without_error_substring_witness:
  \<open>do (\<lambda>_. Inl (Opaque ''unused''))
      \<lparr>client = \<lparr>Do = \<lambda>_. Inr \<lparr>StatusCode = 200, Body = (''{"hash":"BLockHash"}'', None)\<rparr>\<rparr>,
       networkConstants = None :: unit option, host = ''http://node''\<rparr>
      \<lparr>Method = ''GET'',
       URL = \<lparr>Target = ''http://node/chains/main/blocks/head'', RawQuery = []\<rparr>,
       Payload = None\<rparr>
   = Inr \<lparr>returned_bytes = Some ''{"hash":"BLockHash"}'', returned_error = None,
          idle_closed = True\<rparr>\<close>
  using do_success_without_error_substring
    [where t = \<open>\<lparr>client = \<lparr>Do = \<lambda>_. Inr \<lparr>StatusCode = 200,
           Body = (''{"hash":"BLockHash"}'', None)\<rparr>\<rparr>,
         networkConstants = None :: unit option, host = ''http://node''\<rparr>\<close>
       and req = \<open>\<lparr>Method = ''GET'',
         URL = \<lparr>Target = ''http://node/chains/main/blocks/head'', RawQuery = []\<rparr>,
         Payload = None\<rparr>\<close>
       and resp = \<open>\<lparr>StatusCode = 200, Body = (''{"hash":"BLockHash"}'', None)\<rparr>\<close>
       and bs = \<open>''{"hash":"BLockHash"}''\<close> and rerr = None
       and unmarshal = \<open>\<lambda>_. Inl (Opaque ''unused'')\<close>]
  by (simp add: HasPrefix_def)

section \<open>The query builder\<close>

text \<open>
  After the loop each key holds the values of the options with that key, in the order of
  the options; \<open>Encode\<close> then walks the keys in sorted order. Together this is the
  stable sort of the options by key.
\<close>

lemma values_at_Add:
  "values_at (Add v k x) k' = (if k' = k then values_at v k @ [x] else values_at v k')"
  by (simp add: values_at_def Add_def update_conv')

lemma values_at_addAll:
  "values_at (addAll q opts) k = values_at q k @ map Value (filter (\<lambda>opt. Key opt = k) opts)"
  by (induction opts arbitrary: q) (auto simp: values_at_Add)

lemma values_at_empty: "values_at [] k = []"
  by (simp add: values_at_def)

lemma keys_Add: "fst ` set (Add v k x) = insert k (fst ` set v)"
  by (simp add: Add_def dom_update)

lemma distinct_Add: "distinct (map fst v) \<Longrightarrow> distinct (map fst (Add v k x))"
  by (simp add: Add_def distinct_update)

lemma keys_addAll: "fst ` set (addAll q opts) = fst ` set q \<union> Key ` set opts"
  by (induction opts arbitrary: q) (simp_all add: keys_Add)

lemma distinct_addAll: "distinct (map fst q) \<Longrightarrow> distinct (map fst (addAll q opts))"
  by (induction opts arbitrary: q) (auto simp: distinct_Add)

lemma sorted_keys_addAll:
  "sort (map fst (addAll [] opts)) = sorted_list_of_set (Key ` set opts)"
proof -
  have "distinct (map fst (addAll [] opts))"
    by (rule distinct_addAll) simp
  then have "sort (map fst (addAll [] opts)) = sorted_list_of_set (set (map fst (addAll [] opts)))"
    by (simp only: sorted_list_of_set_sort_remdups distinct_remdups_id)
  also have "set (map fst (addAll [] opts)) = Key ` set opts"
    by (simp add: keys_addAll)
  finally show ?thesis .
qed

lemma filter_groups:
  "distinct ks \<Longrightarrow>
     filter (\<lambda>x. f x = a) (concat (map (\<lambda>k. filter (\<lambda>x. f x = k) xs) ks))
       = (if a \<in> set ks then filter (\<lambda>x. f x = a) xs else [])"
proof (induction ks)
  case Nil
  then show ?case by simp
next
  case (Cons k ks)
  have "filter (\<lambda>x. f x = a) (filter (\<lambda>x. f x = k) xs) = (if a = k then filter (\<lambda>x. f x = a) xs else [])"
    by (induction xs) auto
  with Cons show ?case
    by auto
qed

lemma keys_groups: "f ` set (concat (map (\<lambda>k. filter (\<lambda>x. f x = k) xs) ks)) \<subseteq> set ks"
  by (induction ks) auto

lemma sorted_groups:
  "sorted ks \<Longrightarrow> sorted (map f (concat (map (\<lambda>k. filter (\<lambda>x. f x = k) xs) ks)))"
proof (induction ks)
  case Nil
  then show ?case by simp
next
  case (Cons k ks)
  have "sorted (map f (filter (\<lambda>x. f x = k) xs))"
    by (induction xs) auto
  moreover have "\<forall>y \<in> set (concat (map (\<lambda>k. filter (\<lambda>x. f x = k) xs) ks)). k \<le> f y"
    using Cons.prems keys_groups [of f xs ks] by auto
  ultimately show ?case
    using Cons by (auto simp: sorted_append)
qed

lemma groups_sort_key:
  "concat (map (\<lambda>k. filter (\<lambda>x. f x = k) xs) (sorted_list_of_set (f ` set xs))) = sort_key f xs"
proof -
  let ?ks = "sorted_list_of_set (f ` set xs)"
  let ?ys = "concat (map (\<lambda>k. filter (\<lambda>x. f x = k) xs) ?ks)"
  have ks: "set ?ks = f ` set xs" "distinct ?ks" "sorted ?ks"
    by simp_all
  have flt: "filter (\<lambda>x. f x = a) ?ys = filter (\<lambda>x. f x = a) xs" for a
  proof (cases "a \<in> f ` set xs")
    case True
    then show ?thesis by (simp add: filter_groups ks)
  next
    case False
    then have "filter (\<lambda>x. f x = a) xs = []"
      by (auto simp: filter_empty_conv)
    with False show ?thesis by (simp add: filter_groups ks)
  qed
  have "mset ?ys = mset xs"
  proof (rule multiset_eqI)
    fix x
    have "count (mset ?ys) x = count (mset (filter (\<lambda>y. f y = f x) ?ys)) x"
      by simp
    also have "\<dots> = count (mset (filter (\<lambda>y. f y = f x) xs)) x"
      by (simp only: flt)
    also have "\<dots> = count (mset xs) x"
      by simp
    finally show "count (mset ?ys) x = count (mset xs) x" .
  qed
  moreover have "filter (\<lambda>x. f k = f x) ?ys = filter (\<lambda>x. f k = f x) xs" for k
    using flt [of "f k"] by (simp add: eq_commute)
  moreover have "sorted (map f ?ys)"
    using ks(3) by (rule sorted_groups)
  ultimately show ?thesis
    by (rule properties_for_sort_key [symmetric])
qed

lemma encoded_groups:
  "concat (map (\<lambda>k. map (encodePair k) (map Value (filter (\<lambda>opt. Key opt = k) opts))) ks)
     = map (\<lambda>opt. encodePair (Key opt) (Value opt))
         (concat (map (\<lambda>k. filter (\<lambda>opt. Key opt = k) opts) ks))"
proof -
  have "map (encodePair k) (map Value (filter (\<lambda>opt. Key opt = k) opts))
      = map (\<lambda>opt. encodePair (Key opt) (Value opt)) (filter (\<lambda>opt. Key opt = k) opts)" for k
    by (induction opts) auto
  then show ?thesis
    by (induction ks) simp_all
qed

lemma Encode_addAll:
  "Encode (addAll [] opts) =
     Join (map (\<lambda>opt. encodePair (Key opt) (Value opt)) (sort_key Key opts)) ''&''"
proof -
  have "values_at (addAll [] opts) k = map Value (filter (\<lambda>opt. Key opt = k) opts)" for k
    by (simp add: values_at_addAll values_at_empty)
  then have "Encode (addAll [] opts) =
      Join (concat (map (\<lambda>k. map (encodePair k) (map Value (filter (\<lambda>opt. Key opt = k) opts)))
              (sorted_list_of_set (Key ` set opts)))) ''&''"
    by (simp add: Encode_def sorted_keys_addAll)
  then show ?thesis
    by (simp only: encoded_groups groups_sort_key)
qed

text \<open>
  Claim C8, as stated: the encoded query holds every pair, keeps the insertion order of
  options with distinct keys, and keeps both occurrences of a duplicate key. The middle
  part fails: \<^verbatim>\<open>Encode\<close> writes the keys in sorted order, so the options \<^verbatim>\<open>b=2\<close>, \<^verbatim>\<open>a=1\<close>,
  attached in this order, are encoded as \<^verbatim>\<open>a=1&b=2\<close>.
\<close>

theorem constructQueryParams_order_counterexample:
  "RawQuery (URL (constructQueryParams (\<lambda>_. [])
     \<lparr>Method = ''GET'', URL = \<lparr>Target = ''http://node/x'', RawQuery = []\<rparr>, Payload = None\<rparr>
     [\<lparr>Key = ''b'', Value = ''2''\<rparr>, \<lparr>Key = ''a'', Value = ''1''\<rparr>])) = ''a=1&b=2''
   \<and> RawQuery (URL (constructQueryParams (\<lambda>_. [])
     \<lparr>Method = ''GET'', URL = \<lparr>Target = ''http://node/x'', RawQuery = []\<rparr>, Payload = None\<rparr>
     [\<lparr>Key = ''b'', Value = ''2''\<rparr>, \<lparr>Key = ''a'', Value = ''1''\<rparr>])) \<noteq> ''b=2&a=1''"
  by (simp add: constructQueryParams_def Add_def values_at_def Encode_def encodePair_def
      QueryEscape_def escapeByte_def shouldEscape_def)

text \<open>
  Claim C8, amended: for every sequence of options attached to a request with no
  existing query, the encoded query is the options sorted by key, the sort being stable,
  each written \<^verbatim>\<open>key=value\<close> with both sides escaped, joined by \<^verbatim>\<open>&\<close>; nothing else of the
  request changes. So every option appears, as often as it was given (duplicate keys
  are additive); the keys ascend; and options with the same key keep their insertion
  order.
\<close>

theorem constructQueryParams_sorted_by_key:
  assumes "Query (URL req) = []"
  shows "constructQueryParams Query req opts =
           req\<lparr>URL := (URL req)\<lparr>RawQuery :=
             Join (map (\<lambda>opt. encodePair (Key opt) (Value opt)) (sort_key Key opts)) ''&''\<rparr>\<rparr>
         \<and> mset (sort_key Key opts) = mset opts
         \<and> sorted (map Key (sort_key Key opts))
         \<and> (\<forall>k. filter (\<lambda>opt. Key opt = k) (sort_key Key opts)
                = filter (\<lambda>opt. Key opt = k) opts)"
  using assms
  by (simp add: constructQueryParams_def Encode_addAll sort_key_stable)

theorem constructQueryParams_sorted_by_key_witness:
  "constructQueryParams (\<lambda>_. [])
     \<lparr>Method = ''GET'', URL = \<lparr>Target = ''http://node/x'', RawQuery = []\<rparr>, Payload = None\<rparr>
     [\<lparr>Key = ''b'', Value = ''2''\<rparr>, \<lparr>Key = ''a'', Value = ''1 0''\<rparr>, \<lparr>Key = ''b'', Value = ''1''\<rparr>]
   = \<lparr>Method = ''GET'', URL = \<lparr>Target = ''http://node/x'', RawQuery = ''a=1+0&b=2&b=1''\<rparr>,
      Payload = None\<rparr>"
  using constructQueryParams_sorted_by_key
    [where Query = "\<lambda>_. []"
       and req = "\<lparr>Method = ''GET'', URL = \<lparr>Target = ''http://node/x'', RawQuery = []\<rparr>,
                   Payload = None\<rparr>"
       and opts = "[\<lparr>Key = ''b'', Value = ''2''\<rparr>, \<lparr>Key = ''a'', Value = ''1 0''\<rparr>,
                    \<lparr>Key = ''b'', Value = ''1''\<rparr>]"]
  by (simp add: encodePair_def QueryEscape_def escapeByte_def shouldEscape_def)

section \<open>The bootstrap sequence\<close>

text \<open>
  The three ways \<open>New\<close> returns once the host is normalised: the head fetch fails, the
  constants fetch fails, or both succeed.
\<close>

lemma New_head_fails:
  assumes "cleanseHost h = Inr r"
    and "Head \<lparr>client = \<lparr>Do = httpDo\<rparr>, networkConstants = None, host = r\<rparr> = (blk, Some e)"
  shows "New httpDo Head Constants h =
           Inr (Some \<lparr>client = \<lparr>Do = httpDo\<rparr>, networkConstants = None, host = r\<rparr>,
                Some (Wrap e ''could not initialize library with network constants''))"
  using assms by (simp add: New_def)

lemma New_constants_fails:
  assumes "cleanseHost h = Inr r"
    and "Head \<lparr>client = \<lparr>Do = httpDo\<rparr>, networkConstants = None, host = r\<rparr> = (Some b, None)"
    and "Constants \<lparr>client = \<lparr>Do = httpDo\<rparr>, networkConstants = None, host = r\<rparr> (Hash b)
           = (c, Some e)"
  shows "New httpDo Head Constants h =
           Inr (Some \<lparr>client = \<lparr>Do = httpDo\<rparr>, networkConstants = None, host = r\<rparr>,
                Some (Wrap e ''could not initialize library with network constants''))"
  using assms by (simp add: New_def)

lemma New_succeeds:
  assumes "cleanseHost h = Inr r"
    and "Head \<lparr>client = \<lparr>Do = httpDo\<rparr>, networkConstants = None, host = r\<rparr> = (Some b, None)"
    and "Constants \<lparr>client = \<lparr>Do = httpDo\<rparr>, networkConstants = None, host = r\<rparr> (Hash b)
           = (c, None)"
  shows "New httpDo Head Constants h =
           Inr (Some \<lparr>client = \<lparr>Do = httpDo\<rparr>, networkConstants = c, host = r\<rparr>, None)"
  using assms by (simp add: New_def)

lemma SetConstants_repairs: "networkConstants (SetConstants t c) = Some c"
  by (simp add: SetConstants_def)

text \<open>
  Claim C5. A bootstrap fetch runs only after the host has been normalised, that is on a
  non-empty host (\<open>cleanseHost h = Inr r\<close>). If then the head fetch returns an error, or
  it returns a block and the constants fetch returns an error, \<open>New\<close> returns the
  client \<^verbatim>\<open>gt\<close> it has built (a non-nil pointer, with the normalised host and the
  transport) together with a non-nil error that wraps the cause, and the constants of
  that client are unset.
\<close>

theorem New_failure_returns_client:
  assumes "cleanseHost h = Inr r"
    and "gt = \<lparr>client = \<lparr>Do = httpDo\<rparr>, networkConstants = None, host = r\<rparr>"
    and "(\<exists>blk. Head gt = (blk, Some e))
         \<or> (\<exists>b c. Head gt = (Some b, None) \<and> Constants gt (Hash b) = (c, Some e))"
  shows "New httpDo Head Constants h =
           Inr (Some gt, Some (Wrap e ''could not initialize library with network constants''))
         \<and> networkConstants gt = None \<and> host gt = r \<and> Do (client gt) = httpDo"
  using assms by (auto simp: New_head_fails New_constants_fails)

theorem New_failure_returns_client_witness:
  "New (\<lambda>_. Inl (Opaque ''dial tcp: connection refused''))
       (\<lambda>_. (None, Some (Opaque ''could not get head block'')))
       (\<lambda>_ _. (None :: unit option, None)) ''node.example:8732/''
   = Inr (Some \<lparr>client = \<lparr>Do = \<lambda>_. Inl (Opaque ''dial tcp: connection refused'')\<rparr>,
                networkConstants = None, host = ''http://node.example:8732''\<rparr>,
          Some (Wrap (Opaque ''could not get head block'')
                  ''could not initialize library with network constants''))"
  using New_failure_returns_client
    [where h = "''node.example:8732/''" and r = "''http://node.example:8732''"
       and httpDo = "\<lambda>_. Inl (Opaque ''dial tcp: connection refused'')"
       and Head = "\<lambda>_. (None, Some (Opaque ''could not get head block''))"
       and Constants = "\<lambda>_ _. (None :: unit option, None)"
       and e = "Opaque ''could not get head block''"
       and gt = "\<lparr>client = \<lparr>Do = \<lambda>_. Inl (Opaque ''dial tcp: connection refused'')\<rparr>,
                  networkConstants = None, host = ''http://node.example:8732''\<rparr>"]
  by (simp add: cleanseHost_def index_def HasPrefix_def)

text \<open>
  Claim C4, as stated: the error \<open>New\<close> returns names which of the two steps failed.
  Both failure branches wrap the cause with one and the same message, so a run whose
  head fetch fails and a run whose constants fetch fails, with the same cause, return
  the same value: the error does not tell the steps apart.
\<close>

theorem New_step_not_named_counterexample:
  "New (\<lambda>_. Inl (Opaque ''unused''))
       (\<lambda>_. (None, Some (Opaque ''connection refused'')))
       (\<lambda>_ _. (None :: unit option, None)) ''node''
   = New (\<lambda>_. Inl (Opaque ''unused''))
       (\<lambda>_. (Some \<lparr>Hash = ''BLhead''\<rparr>, None))
       (\<lambda>_ _. (None :: unit option, Some (Opaque ''connection refused''))) ''node''
   \<and> New (\<lambda>_. Inl (Opaque ''unused''))
       (\<lambda>_. (Some \<lparr>Hash = ''BLhead''\<rparr>, None))
       (\<lambda>_ _. (None :: unit option, Some (Opaque ''connection refused''))) ''node''
     = Inr (Some \<lparr>client = \<lparr>Do = \<lambda>_. Inl (Opaque ''unused'')\<rparr>, networkConstants = None,
                  host = ''http://node''\<rparr>,
            Some (Wrap (Opaque ''connection refused'')
                    ''could not initialize library with network constants''))"
  by (simp add: New_def cleanseHost_def index_def HasPrefix_def)

text \<open>
  Claim C4, amended: for every failure of the bootstrap sequence run by \<open>New\<close>, at the
  head fetch or at the constants fetch, the returned error is the cause wrapped with the
  message \<^verbatim>\<open>could not initialize library with network constants\<close>, the same message at
  both steps. The cause is preserved: it is the cause of the returned error, and the
  text of the returned error is the message, a colon and the text of the cause. Which
  step failed can be read from the returned error only as far as the cause says so.
\<close>

theorem New_failure_wraps_cause:
  assumes "cleanseHost h = Inr r"
    and "gt = \<lparr>client = \<lparr>Do = httpDo\<rparr>, networkConstants = None, host = r\<rparr>"
    and "(\<exists>blk. Head gt = (blk, Some e))
         \<or> (\<exists>b c. Head gt = (Some b, None) \<and> Constants gt (Hash b) = (c, Some e))"
  shows "\<exists>w. New httpDo Head Constants h = Inr (Some gt, Some w)
           \<and> w = Wrap e ''could not initialize library with network constants''
           \<and> Cause w = Cause e
           \<and> errorString w
               = ''could not initialize library with network constants: '' @ errorString e"
  using assms by (auto simp: New_head_fails New_constants_fails)

theorem New_failure_wraps_cause_witness:
  "New (\<lambda>_. Inl (Opaque ''unused''))
       (\<lambda>_. (Some \<lparr>Hash = ''BLhead''\<rparr>, None))
       (\<lambda>_ _. (None :: unit option, Some (Opaque ''connection refused''))) ''node''
     = Inr (Some \<lparr>client = \<lparr>Do = \<lambda>_. Inl (Opaque ''unused'')\<rparr>, networkConstants = None,
                  host = ''http://node''\<rparr>,
            Some (Wrap (Opaque ''connection refused'')
                    ''could not initialize library with network constants''))
   \<and> errorString (Wrap (Opaque ''connection refused'')
                    ''could not initialize library with network constants'')
       = ''could not initialize library with network constants: connection refused''"
  using New_failure_wraps_cause
    [where h = "''node''" and r = "''http://node''"
       and httpDo = "\<lambda>_. Inl (Opaque ''unused'')"
       and Head = "\<lambda>_. (Some \<lparr>Hash = ''BLhead''\<rparr>, None)"
       and Constants = "\<lambda>_ _. (None :: unit option, Some (Opaque ''connection refused''))"
       and e = "Opaque ''connection refused''"
       and gt = "\<lparr>client = \<lparr>Do = \<lambda>_. Inl (Opaque ''unused'')\<rparr>, networkConstants = None,
                  host = ''http://node''\<rparr>"]
  by (simp add: cleanseHost_def index_def HasPrefix_def)

end
